theory Spec2Isabelle
  imports Main "HOL-Library.FSet"
begin

section \<open>Data model\<close>

text \<open>
  The program is a single Python module that compiles an infix regular expression to a
  DFA: \<open>preprocess\<close> and \<open>infix_to_postfix\<close> (shunting yard), the class \<open>NFA\<close> with its
  combinators, \<open>epsilon_closure\<close> and \<open>to_dfa\<close>, \<open>postfix_to_nfa\<close>, and the
  class \<open>DFA\<close> with \<open>accept\<close>.

  A Python character is modelled by its code point (\<open>ord\<close>), a natural number, and a
  Python \<open>str\<close> by a list of code points: the tables are indexed by \<open>ord(char)\<close>, and
  code points from 256 on are inputs the program can receive. A Python \<open>set\<close> of
  state numbers is a finite set (\<open>nat fset\<close>); where the program iterates over one, the
  model iterates in increasing order (Python fixes no order). Every exception the
  program can raise is a value of \<open>error\<close>: results are \<open>error + 'a\<close>.
\<close>

datatype error = IndexError | KeyError

type_synonym pychar = nat
type_synonym pystr = "pychar list"

definition ord :: "char \<Rightarrow> pychar" where
  "ord c = of_char c"

definition str :: "string \<Rightarrow> pystr" where
  "str s = map ord s"

text \<open>\<open>xs[i]\<close> for a non-negative index: IndexError out of range.\<close>

definition getitem :: "'a list \<Rightarrow> nat \<Rightarrow> error + 'a" where
  "getitem xs i = (if i < length xs then Inr (xs ! i) else Inl IndexError)"

text \<open>\<open>d[i][j]\<close> and the assignment \<open>d[i][j] = v\<close> on a list of lists.\<close>

definition getitem2 :: "'a list list \<Rightarrow> nat \<Rightarrow> nat \<Rightarrow> error + 'a" where
  "getitem2 d i j = (case getitem d i of Inl e \<Rightarrow> Inl e | Inr row \<Rightarrow> getitem row j)"

definition setitem2 :: "'a list list \<Rightarrow> nat \<Rightarrow> nat \<Rightarrow> 'a \<Rightarrow> error + 'a list list" where
  "setitem2 d i j v =
     (case getitem d i of
        Inl e \<Rightarrow> Inl e
      | Inr row \<Rightarrow> if j < length row then Inr (d[i := row[j := v]]) else Inl IndexError)"

section \<open>Shunting-yard translator\<close>

text \<open>
  \<open>preprocess\<close>: the loop over \<open>regex[1:]\<close> with its two variables \<open>prev_char\<close> and
  \<open>new_regex\<close>. \<open>regex[0]\<close> raises IndexError on the empty string.
\<close>

fun preprocess_loop :: "pystr \<Rightarrow> pychar \<Rightarrow> pystr \<Rightarrow> pystr" where
  "preprocess_loop [] prev_char new_regex = new_regex"
| "preprocess_loop (ch # rest) prev_char new_regex =
     preprocess_loop rest ch
       ((if ch \<notin> set (str '')|*'') \<and> prev_char \<notin> set (str ''|('')
         then new_regex @ str ''.'' else new_regex) @ [ch])"

definition preprocess :: "pystr \<Rightarrow> error + pystr" where
  "preprocess regex =
     (case regex of
        [] \<Rightarrow> Inl IndexError
      | c # rest \<Rightarrow> Inr (preprocess_loop rest c [c]))"

text \<open>The dictionary \<open>precedence\<close>.\<close>

definition precedence :: "pychar \<rightharpoonup> nat" where
  "precedence = [ord CHR ''|'' \<mapsto> 0, ord CHR ''.'' \<mapsto> 1, ord CHR ''*'' \<mapsto> 2]"

text \<open>
  The operator stack is a list whose head is the top (\<open>stack[-1]\<close>); \<open>postfix\<close> grows
  at its end. The inner loop of the operator branch: pop while the stack is not empty,
  its top is not \<open>(\<close> and the top's precedence is at least that of \<open>ch\<close>.
\<close>

fun pop_operators :: "pychar \<Rightarrow> pychar list \<Rightarrow> pystr \<Rightarrow> error + (pychar list \<times> pystr)" where
  "pop_operators ch [] postfix = Inr ([], postfix)"
| "pop_operators ch (tos # stack) postfix =
     (if tos = ord CHR ''('' then Inr (tos # stack, postfix)
      else case precedence tos of
        None \<Rightarrow> Inl KeyError
      | Some p \<Rightarrow> (case precedence ch of
          None \<Rightarrow> Inl KeyError
        | Some q \<Rightarrow> if p \<ge> q then pop_operators ch stack (postfix @ [tos])
                    else Inr (tos # stack, postfix)))"

text \<open>
  The branch of \<open>)\<close>: pop until \<open>(\<close> is on top, then pop the \<open>(\<close>. \<open>stack[-1]\<close>
  raises IndexError on the empty stack.
\<close>

fun pop_until_paren :: "pychar list \<Rightarrow> pystr \<Rightarrow> error + (pychar list \<times> pystr)" where
  "pop_until_paren [] postfix = Inl IndexError"
| "pop_until_paren (tos # stack) postfix =
     (if tos = ord CHR ''('' then Inr (stack, postfix)
      else pop_until_paren stack (postfix @ [tos]))"

fun infix_loop :: "pystr \<Rightarrow> pychar list \<Rightarrow> pystr \<Rightarrow> error + (pychar list \<times> pystr)" where
  "infix_loop [] stack postfix = Inr (stack, postfix)"
| "infix_loop (ch # rest) stack postfix =
     (if ch = ord CHR ''('' then infix_loop rest (ch # stack) postfix
      else if precedence ch = None \<and> ch \<noteq> ord CHR '')'' then infix_loop rest stack (postfix @ [ch])
      else if precedence ch \<noteq> None then
        (case pop_operators ch stack postfix of
           Inl e \<Rightarrow> Inl e
         | Inr (stack', postfix') \<Rightarrow> infix_loop rest (ch # stack') postfix')
      else
        (case pop_until_paren stack postfix of
           Inl e \<Rightarrow> Inl e
         | Inr (stack', postfix') \<Rightarrow> infix_loop rest stack' postfix'))"

text \<open>The last loop pops what is left on the stack, top first, onto \<open>postfix\<close>.\<close>

definition infix_to_postfix :: "pystr \<Rightarrow> error + pystr" where
  "infix_to_postfix regex =
     (case preprocess regex of
        Inl e \<Rightarrow> Inl e
      | Inr regex' \<Rightarrow>
          (case infix_loop regex' [] [] of
             Inl e \<Rightarrow> Inl e
           | Inr (stack, postfix) \<Rightarrow> Inr (postfix @ stack)))"

section \<open>NFA\<close>

record nfa =
  num_states :: nat
  delta :: "nat fset list list"
  start_state :: nat
  final_state :: nat

definition ALPHABET_SIZE :: nat where
  "ALPHABET_SIZE = 256"

text \<open>\<open>d[i][j].add(k)\<close>: both index operations can raise IndexError.\<close>

definition set_add :: "nat fset list list \<Rightarrow> nat \<Rightarrow> nat \<Rightarrow> nat \<Rightarrow> error + nat fset list list" where
  "set_add d i j k =
     (case getitem2 d i j of
        Inl e \<Rightarrow> Inl e
      | Inr s \<Rightarrow> setitem2 d i j (finsert k s))"

definition single_char_nfa :: "pychar \<Rightarrow> error + nfa" where
  "single_char_nfa char =
     (case set_add (replicate 2 (replicate (ALPHABET_SIZE + 1) {||})) 0 char 1 of
        Inl e \<Rightarrow> Inl e
      | Inr d \<Rightarrow> Inr \<lparr>num_states = 2, delta = d, start_state = 0, final_state = 1\<rparr>)"

definition kleene_star :: "nfa \<Rightarrow> error + nfa" where
  "kleene_star self =
     (case set_add (delta self) (final_state self) ALPHABET_SIZE (start_state self) of
        Inl e \<Rightarrow> Inl e
      | Inr d \<Rightarrow> Inr (self\<lparr>delta := d, final_state := start_state self\<rparr>))"

text \<open>
  \<open>concatenate\<close> and \<open>union\<close> start with the same two loops: append
  \<open>other.num_states\<close> empty rows to \<open>self.delta\<close>, then for every \<open>i\<close> in
  \<open>range(other.num_states)\<close> and \<open>j\<close> in \<open>range(ALPHABET_SIZE + 1)\<close> store the
  set \<open>{k + self.num_states | k in other.delta[i][j]}\<close> at
  \<open>self.delta[self.num_states + i][j]\<close>.
\<close>

definition append_rows :: "nat fset list list \<Rightarrow> nat \<Rightarrow> nat fset list list" where
  "append_rows d n = d @ replicate n (replicate (ALPHABET_SIZE + 1) {||})"

fun relabel_cols :: "nat \<Rightarrow> nfa \<Rightarrow> nat \<Rightarrow> nat list \<Rightarrow> nat fset list list \<Rightarrow> error + nat fset list list" where
  "relabel_cols n other i [] d = Inr d"
| "relabel_cols n other i (j # js) d =
     (case getitem2 (delta other) i j of
        Inl e \<Rightarrow> Inl e
      | Inr ks \<Rightarrow>
          (case setitem2 d (n + i) j ((\<lambda>k. k + n) |`| ks) of
             Inl e \<Rightarrow> Inl e
           | Inr d' \<Rightarrow> relabel_cols n other i js d'))"

fun relabel_rows :: "nat \<Rightarrow> nfa \<Rightarrow> nat list \<Rightarrow> nat fset list list \<Rightarrow> error + nat fset list list" where
  "relabel_rows n other [] d = Inr d"
| "relabel_rows n other (i # is) d =
     (case relabel_cols n other i [0..<ALPHABET_SIZE + 1] d of
        Inl e \<Rightarrow> Inl e
      | Inr d' \<Rightarrow> relabel_rows n other is d')"

definition append_relabel :: "nfa \<Rightarrow> nfa \<Rightarrow> error + nat fset list list" where
  "append_relabel self other =
     relabel_rows (num_states self) other [0..<num_states other]
       (append_rows (delta self) (num_states other))"

definition concatenate :: "nfa \<Rightarrow> nfa \<Rightarrow> error + nfa" where
  "concatenate self other =
     (case append_relabel self other of
        Inl e \<Rightarrow> Inl e
      | Inr d \<Rightarrow>
          (case set_add d (final_state self) ALPHABET_SIZE (num_states self + start_state other) of
             Inl e \<Rightarrow> Inl e
           | Inr d' \<Rightarrow>
               Inr (self\<lparr>delta := d',
                         final_state := num_states self + final_state other,
                         num_states := num_states self + num_states other\<rparr>)))"

definition union_nfa :: "nfa \<Rightarrow> nfa \<Rightarrow> error + nfa" where
  "union_nfa self other =
     (case append_relabel self other of
        Inl e \<Rightarrow> Inl e
      | Inr d \<Rightarrow>
          (case set_add d (start_state self) ALPHABET_SIZE (num_states self + start_state other) of
             Inl e \<Rightarrow> Inl e
           | Inr d' \<Rightarrow>
               (case set_add d' (final_state self) ALPHABET_SIZE (num_states self + final_state other) of
                  Inl e \<Rightarrow> Inl e
                | Inr d'' \<Rightarrow>
                    Inr (self\<lparr>delta := d'',
                              final_state := num_states self + final_state other,
                              num_states := num_states self + num_states other\<rparr>))))"

text \<open>
  \<open>epsilon_closure\<close>: the loop over the stack (head = top) with the set \<open>closure\<close>.
  The states pushed in one round are those of
  \<open>self.delta[current_state][ALPHABET_SIZE]\<close> that are not in \<open>closure\<close>, the last
  one pushed being on top. The loop ends because every round either shrinks the stack
  or adds a row index of \<open>self.delta\<close> to \<open>closure\<close>.
\<close>

function epsilon_closure_loop :: "nfa \<Rightarrow> nat list \<Rightarrow> nat fset \<Rightarrow> error + nat fset" where
  "epsilon_closure_loop self [] closure = Inr closure"
| "epsilon_closure_loop self (current_state # stack) closure =
     (if current_state |\<in>| closure then epsilon_closure_loop self stack closure
      else
        (case getitem2 (delta self) current_state ALPHABET_SIZE of
           Inl e \<Rightarrow> Inl e
         | Inr nexts \<Rightarrow>
             epsilon_closure_loop self
               (rev (filter (\<lambda>next_state. next_state |\<notin>| finsert current_state closure)
                            (sorted_list_of_fset nexts)) @ stack)
               (finsert current_state closure)))"
     apply pat_completeness
    apply simp
   apply simp
  apply simp
  done
termination
proof (relation "measures
         [\<lambda>(self, stack, closure). card ({0..<length (delta self)} - fset closure),
          \<lambda>(self, stack, closure). length stack]")
  show "wf (measures
         [\<lambda>(self, stack, closure). card ({0..<length (delta self)} - fset closure),
          \<lambda>(self, stack, closure). length stack])"
    by simp
next
  fix self :: nfa and current_state :: nat and stack :: "nat list" and closure :: "nat fset"
  assume "current_state |\<in>| closure"
  then show "((self, stack, closure), (self, current_state # stack, closure))
          \<in> measures
         [\<lambda>(self, stack, closure). card ({0..<length (delta self)} - fset closure),
          \<lambda>(self, stack, closure). length stack]"
    by simp
next
  fix self :: nfa and current_state :: nat and stack :: "nat list"
    and closure nexts :: "nat fset"
  assume a: "current_state |\<notin>| closure"
     and b: "getitem2 (delta self) current_state ALPHABET_SIZE = Inr nexts"
  from b have lt: "current_state < length (delta self)"
    by (simp add: getitem2_def getitem_def split: if_splits sum.splits)
  let ?A = "{0..<length (delta self)} - fset (finsert current_state closure)"
  let ?B = "{0..<length (delta self)} - fset closure"
  have mem: "current_state \<in> ?B"
    using a lt by simp
  have nmem: "current_state \<notin> ?A"
    by simp
  have sub: "?A \<subseteq> ?B"
    by (simp add: subset_iff)
  have "?A \<subset> ?B"
    using mem nmem sub by blast
  moreover have "finite ?B"
    by simp
  ultimately have "card ?A < card ?B"
    by (rule psubset_card_mono [rotated])
  then show "((self,
           rev (filter (\<lambda>next_state. next_state |\<notin>| finsert current_state closure)
                  (sorted_list_of_fset nexts)) @ stack,
           finsert current_state closure),
          (self, current_state # stack, closure))
          \<in> measures
         [\<lambda>(self, stack, closure). card ({0..<length (delta self)} - fset closure),
          \<lambda>(self, stack, closure). length stack]"
    by simp
qed

definition epsilon_closure :: "nfa \<Rightarrow> nat \<Rightarrow> error + nat fset" where
  "epsilon_closure self state = epsilon_closure_loop self [state] {||}"

text \<open>
  \<open>postfix_to_nfa\<close>: the stack of NFAs, head = top. \<open>stack[-1]\<close> and \<open>stack.pop()\<close>
  raise IndexError on the empty stack. The combinators change the NFA on top in place;
  no NFA is shared between two places, so the model replaces the top.
\<close>

fun postfix_to_nfa_loop :: "pystr \<Rightarrow> nfa list \<Rightarrow> error + nfa list" where
  "postfix_to_nfa_loop [] stack = Inr stack"
| "postfix_to_nfa_loop (ch # rest) stack =
     (if ch \<notin> set (str ''|.*'') then
        (case single_char_nfa ch of
           Inl e \<Rightarrow> Inl e
         | Inr a \<Rightarrow> postfix_to_nfa_loop rest (a # stack))
      else if ch = ord CHR ''*'' then
        (case stack of
           [] \<Rightarrow> Inl IndexError
         | a # stack' \<Rightarrow>
             (case kleene_star a of
                Inl e \<Rightarrow> Inl e
              | Inr a' \<Rightarrow> postfix_to_nfa_loop rest (a' # stack')))
      else if ch = ord CHR ''|'' then
        (case stack of
           [] \<Rightarrow> Inl IndexError
         | b # stack' \<Rightarrow>
             (case stack' of
                [] \<Rightarrow> Inl IndexError
              | a # stack'' \<Rightarrow>
                  (case union_nfa a b of
                     Inl e \<Rightarrow> Inl e
                   | Inr a' \<Rightarrow> postfix_to_nfa_loop rest (a' # stack''))))
      else
        (case stack of
           [] \<Rightarrow> Inl IndexError
         | b # stack' \<Rightarrow>
             (case stack' of
                [] \<Rightarrow> Inl IndexError
              | a # stack'' \<Rightarrow>
                  (case concatenate a b of
                     Inl e \<Rightarrow> Inl e
                   | Inr a' \<Rightarrow> postfix_to_nfa_loop rest (a' # stack'')))))"

definition postfix_to_nfa :: "pystr \<Rightarrow> error + nfa" where
  "postfix_to_nfa postfix =
     (case postfix_to_nfa_loop postfix [] of
        Inl e \<Rightarrow> Inl e
      | Inr [] \<Rightarrow> Inl IndexError
      | Inr (a # stack) \<Rightarrow> Inr a)"

section \<open>Subset construction\<close>

text \<open>
  The body of \<open>to_dfa\<close>'s loop, innermost first. \<open>union_closures\<close> is the loop
  \<open>for state in self.delta[nfa_state][char]: s = s.union(self.epsilon_closure(state))\<close>,
  \<open>to_dfa_char\<close> the loop \<open>for nfa_state in current_set\<close> around it, and
  \<open>to_dfa_row\<close> the loop \<open>for char in range(ALPHABET_SIZE)\<close>, which returns the sets
  \<open>s\<close> in the order of the characters: the new row of \<open>delta\<close>, and also what the
  loop appends to \<open>queue\<close>.
\<close>

fun union_closures :: "nfa \<Rightarrow> nat list \<Rightarrow> nat fset \<Rightarrow> error + nat fset" where
  "union_closures self [] s = Inr s"
| "union_closures self (state # states) s =
     (case epsilon_closure self state of
        Inl e \<Rightarrow> Inl e
      | Inr c \<Rightarrow> union_closures self states (s |\<union>| c))"

fun to_dfa_char :: "nfa \<Rightarrow> nat list \<Rightarrow> nat \<Rightarrow> nat fset \<Rightarrow> error + nat fset" where
  "to_dfa_char self [] char s = Inr s"
| "to_dfa_char self (nfa_state # nfa_states) char s =
     (case getitem2 (delta self) nfa_state char of
        Inl e \<Rightarrow> Inl e
      | Inr dests \<Rightarrow>
          (case union_closures self (sorted_list_of_fset dests) s of
             Inl e \<Rightarrow> Inl e
           | Inr s' \<Rightarrow> to_dfa_char self nfa_states char s'))"

fun to_dfa_row :: "nfa \<Rightarrow> nat fset \<Rightarrow> nat list \<Rightarrow> error + nat fset list" where
  "to_dfa_row self current_set [] = Inr []"
| "to_dfa_row self current_set (char # chars) =
     (case to_dfa_char self (sorted_list_of_fset current_set) char {||} of
        Inl e \<Rightarrow> Inl e
      | Inr s \<Rightarrow>
          (case to_dfa_row self current_set chars of
             Inl e \<Rightarrow> Inl e
           | Inr row \<Rightarrow> Inr (s # row)))"

lemma to_dfa_char_in_range:
  "to_dfa_char self qs char s = Inr s' \<Longrightarrow> q \<in> set qs \<Longrightarrow> q < length (delta self)"
proof (induction qs arbitrary: s)
  case Nil
  then show ?case by simp
next
  case (Cons a qs)
  from Cons.prems(1) obtain dests s1 where
    g: "getitem2 (delta self) a char = Inr dests" and
    r: "to_dfa_char self qs char s1 = Inr s'"
    by (simp split: sum.splits)
  from g have "a < length (delta self)"
    by (simp add: getitem2_def getitem_def split: if_splits sum.splits)
  with Cons.IH [OF r] Cons.prems(2) show ?case
    by (cases "q = a") simp_all
qed

lemma to_dfa_row_in_range:
  assumes "to_dfa_row self current_set [0..<ALPHABET_SIZE] = Inr row"
  shows "fset current_set \<subseteq> {0..<length (delta self)}"
proof -
  have "[0..<ALPHABET_SIZE] = 0 # [1..<ALPHABET_SIZE]"
    by (simp add: ALPHABET_SIZE_def upt_conv_Cons)
  with assms obtain s where
    "to_dfa_char self (sorted_list_of_fset current_set) 0 {||} = Inr s"
    by (simp split: sum.splits)
  then have "\<And>q. q \<in> fset current_set \<Longrightarrow> q < length (delta self)"
    using to_dfa_char_in_range [of self "sorted_list_of_fset current_set" 0 "{||}" s]
    by simp
  then show ?thesis
    by (simp add: subset_iff)
qed

text \<open>
  The dictionary \<open>state_map\<close> keeps insertion order: an association list that grows
  at its end. \<open>delta\<close> and \<open>num_states\<close> are local to \<open>to_dfa\<close>, so \<open>delta\<close> always
  has \<open>num_states\<close> rows and the new row is the last one. The loop ends because every
  round either shrinks the queue or adds a new set of row indices of \<open>self.delta\<close> to
  \<open>state_map\<close>.
\<close>

type_synonym state_map = "(nat fset \<times> nat) list"

function to_dfa_loop ::
  "nfa \<Rightarrow> nat fset list \<Rightarrow> state_map \<Rightarrow> nat fset list list \<Rightarrow> nat
     \<Rightarrow> error + (state_map \<times> nat fset list list \<times> nat)" where
  "to_dfa_loop self [] state_map d n = Inr (state_map, d, n)"
| "to_dfa_loop self (current_set # queue) state_map d n =
     (if map_of state_map current_set \<noteq> None then to_dfa_loop self queue state_map d n
      else
        (case to_dfa_row self current_set [0..<ALPHABET_SIZE] of
           Inl e \<Rightarrow> Inl e
         | Inr row \<Rightarrow>
             to_dfa_loop self (queue @ row) (state_map @ [(current_set, n)]) (d @ [row]) (n + 1)))"
     apply pat_completeness
    apply simp
   apply simp
  apply simp
  done
termination
proof (relation "measures
         [\<lambda>(self, queue, state_map, d, n).
            card (Pow {0..<length (delta self)} - set (map (fset \<circ> fst) state_map)),
          \<lambda>(self, queue, state_map, d, n). length queue]")
  show "wf (measures
         [\<lambda>(self, queue, state_map, d, n).
            card (Pow {0..<length (delta self)} - set (map (fset \<circ> fst) state_map)),
          \<lambda>(self, queue, state_map, d, n). length queue])"
    by simp
next
  fix self :: nfa and current_set :: "nat fset" and queue :: "nat fset list"
    and state_map :: state_map and d :: "nat fset list list" and n :: nat
  assume "map_of state_map current_set \<noteq> None"
  show "((self, queue, state_map, d, n), (self, current_set # queue, state_map, d, n))
          \<in> measures
         [\<lambda>(self, queue, state_map, d, n).
            card (Pow {0..<length (delta self)} - set (map (fset \<circ> fst) state_map)),
          \<lambda>(self, queue, state_map, d, n). length queue]"
    by simp
next
  fix self :: nfa and current_set :: "nat fset" and queue :: "nat fset list"
    and state_map :: state_map and d :: "nat fset list list" and n :: nat
    and row :: "nat fset list"
  assume a: "\<not> map_of state_map current_set \<noteq> None"
     and b: "to_dfa_row self current_set [0..<ALPHABET_SIZE] = Inr row"
  let ?U = "Pow {0..<length (delta self)}"
  let ?A = "?U - set (map (fset \<circ> fst) (state_map @ [(current_set, n)]))"
  let ?B = "?U - set (map (fset \<circ> fst) state_map)"
  from a have "current_set \<notin> fst ` set state_map"
    by (simp add: map_of_eq_None_iff)
  then have "fset current_set \<notin> set (map (fset \<circ> fst) state_map)"
    by (auto simp: fset_inject)
  moreover have "fset current_set \<in> ?U"
    using to_dfa_row_in_range [OF b] by simp
  ultimately have mem: "fset current_set \<in> ?B"
    by simp
  have nmem: "fset current_set \<notin> ?A"
    by simp
  have sub: "?A \<subseteq> ?B"
    by (simp add: subset_iff)
  have "?A \<subset> ?B"
    using mem nmem sub by blast
  moreover have "finite ?B"
    by simp
  ultimately have "card ?A < card ?B"
    by (rule psubset_card_mono [rotated])
  then show "((self, queue @ row, state_map @ [(current_set, n)], d @ [row], n + 1),
          (self, current_set # queue, state_map, d, n))
          \<in> measures
         [\<lambda>(self, queue, state_map, d, n).
            card (Pow {0..<length (delta self)} - set (map (fset \<circ> fst) state_map)),
          \<lambda>(self, queue, state_map, d, n). length queue]"
    by simp
qed


text \<open>
  The second phase replaces every set of \<open>delta\<close> by its number:
  \<open>delta[i][char] = state_map[frozenset(delta[i][char])]\<close>, KeyError when the set is not
  a key. The third collects the numbers of the keys that contain \<open>self.final_state\<close>.
\<close>

definition lookup_state :: "state_map \<Rightarrow> nat fset \<Rightarrow> error + nat" where
  "lookup_state state_map s =
     (case map_of state_map s of None \<Rightarrow> Inl KeyError | Some k \<Rightarrow> Inr k)"

fun remap_row :: "state_map \<Rightarrow> nat fset list \<Rightarrow> error + nat list" where
  "remap_row state_map [] = Inr []"
| "remap_row state_map (s # row) =
     (case lookup_state state_map s of
        Inl e \<Rightarrow> Inl e
      | Inr k \<Rightarrow>
          (case remap_row state_map row of
             Inl e \<Rightarrow> Inl e
           | Inr row' \<Rightarrow> Inr (k # row')))"

fun remap :: "state_map \<Rightarrow> nat fset list list \<Rightarrow> error + nat list list" where
  "remap state_map [] = Inr []"
| "remap state_map (row # d) =
     (case remap_row state_map row of
        Inl e \<Rightarrow> Inl e
      | Inr row' \<Rightarrow>
          (case remap state_map d of
             Inl e \<Rightarrow> Inl e
           | Inr d' \<Rightarrow> Inr (row' # d')))"

record dfa =
  dfa_num_states :: nat
  dfa_delta :: "nat list list"
  dfa_start_state :: nat
  final_states :: "nat fset"

text \<open>\<open>to_dfa_tables\<close> is the state of \<open>to_dfa\<close> after its first loop.\<close>

definition to_dfa_tables :: "nfa \<Rightarrow> error + (state_map \<times> nat fset list list \<times> nat)" where
  "to_dfa_tables self =
     (case epsilon_closure self (start_state self) of
        Inl e \<Rightarrow> Inl e
      | Inr c \<Rightarrow> to_dfa_loop self [c] [] [] 0)"

definition to_dfa :: "nfa \<Rightarrow> error + dfa" where
  "to_dfa self =
     (case to_dfa_tables self of
        Inl e \<Rightarrow> Inl e
      | Inr (state_map, d, n) \<Rightarrow>
          (case remap state_map d of
             Inl e \<Rightarrow> Inl e
           | Inr d' \<Rightarrow>
               Inr \<lparr>dfa_num_states = n, dfa_delta = d', dfa_start_state = 0,
                    final_states =
                      fset_of_list (map snd (filter (\<lambda>(x, k). final_state self |\<in>| x) state_map))\<rparr>))"

section \<open>DFA matcher and the pipeline\<close>

fun accept_loop :: "dfa \<Rightarrow> nat \<Rightarrow> pystr \<Rightarrow> error + nat" where
  "accept_loop self current_state [] = Inr current_state"
| "accept_loop self current_state (char # string) =
     (case getitem2 (dfa_delta self) current_state char of
        Inl e \<Rightarrow> Inl e
      | Inr next_state \<Rightarrow> accept_loop self next_state string)"

definition accept :: "dfa \<Rightarrow> pystr \<Rightarrow> error + bool" where
  "accept self string =
     (case accept_loop self (dfa_start_state self) string of
        Inl e \<Rightarrow> Inl e
      | Inr current_state \<Rightarrow> Inr (current_state |\<in>| final_states self))"

definition dfa_from_regex :: "pystr \<Rightarrow> error + dfa" where
  "dfa_from_regex regex =
     (case infix_to_postfix regex of
        Inl e \<Rightarrow> Inl e
      | Inr postfix \<Rightarrow>
          (case postfix_to_nfa postfix of
             Inl e \<Rightarrow> Inl e
           | Inr nfa \<Rightarrow> to_dfa nfa))"

section \<open>Specification-level definitions\<close>

text \<open>
  What the preprocessing pass is meant to compute, in the words of the specification:
  the first character, and then every further character \<open>B\<close>, preceded by the
  concatenation operator exactly when \<open>B\<close> is none of \<open>)\<close>, \<open>|\<close>, \<open>*\<close> and
  the character \<open>A\<close> before it is neither \<open>|\<close> nor \<open>(\<close>.
\<close>

definition needs_concat :: "pychar \<Rightarrow> pychar \<Rightarrow> bool" where
  "needs_concat a b \<longleftrightarrow>
     b \<noteq> ord CHR '')'' \<and> b \<noteq> ord CHR ''|'' \<and> b \<noteq> ord CHR ''*'' \<and>
     a \<noteq> ord CHR ''|'' \<and> a \<noteq> ord CHR ''(''"

definition insert_concat :: "pystr \<Rightarrow> pystr" where
  "insert_concat regex =
     hd regex #
     concat (map (\<lambda>(a, b). (if needs_concat a b then [ord CHR ''.''] else []) @ [b])
                 (zip regex (tl regex)))"

section \<open>The translator\<close>

lemma preprocess_loop_eq:
  "preprocess_loop rest prev_char new_regex =
     new_regex @
     concat (map (\<lambda>(a, b). (if needs_concat a b then [ord CHR ''.''] else []) @ [b])
                 (zip (prev_char # rest) rest))"
proof (induction rest arbitrary: prev_char new_regex)
  case Nil
  then show ?case by simp
next
  case (Cons ch rest)
  have c: "(ch \<notin> set (str '')|*'') \<and> prev_char \<notin> set (str ''|('')) = needs_concat prev_char ch"
    by (auto simp: needs_concat_def str_def)
  show ?case
    by (simp only: preprocess_loop.simps Cons.IH c) (simp add: str_def)
qed

text \<open>
  Claim C8. On every non-empty pattern \<open>preprocess\<close> returns the pattern with the
  concatenation operator \<open>.\<close> inserted between two adjacent characters \<open>A B\<close> exactly
  when \<open>B\<close> is none of \<open>)\<close>, \<open>|\<close>, \<open>*\<close> and \<open>A\<close> is neither \<open>|\<close> nor \<open>(\<close>;
  the original characters stay in order and nothing else changes.
\<close>

theorem preprocess_inserts_concat:
  "regex \<noteq> [] \<Longrightarrow> preprocess regex = Inr (insert_concat regex)"
  by (cases regex) (simp_all add: preprocess_def insert_concat_def preprocess_loop_eq)

theorem preprocess_inserts_concat_witness:
  "str ''(a|b)*abb'' \<noteq> [] \<and> preprocess (str ''(a|b)*abb'') = Inr (str ''(a|b)*.a.b.b'')"
  using preprocess_inserts_concat [of "str ''(a|b)*abb''"]
  by (simp add: insert_concat_def needs_concat_def str_def ord_def)

end
